theory Spec2Isabelle
  imports Main
begin

section \<open>Values, errors and collaborating objects\<close>

text \<open>
  The module \<^verbatim>\<open>python/chigger/exodus/LabelExodusSource.py\<close> defines one class,
  \<^verbatim>\<open>LabelExodusSource\<close>, with the methods \<^verbatim>\<open>getOptions\<close>, \<^verbatim>\<open>__init__\<close>,
  \<^verbatim>\<open>getVTKSource\<close> and \<^verbatim>\<open>update\<close>. Each method is a function below; an object is a
  record of its attributes, a method that mutates \<^verbatim>\<open>self\<close> returns the new record, and a
  raised exception is a value of \<open>error\<close>.
\<close>

datatype pyval = PyNone | PyBool bool | PyInt int | PyStr string

datatype pytype = TBool | TInt | TStr

datatype error =
    MooseException string
  | OptionError string
  | NoVariableInformation
  | IndexError

text \<open>The identity of a VTK object (a filter, a renderer), as the interpreter allocates it.\<close>

type_synonym vtk_object = nat

text \<open>
  A call that mutates \<^verbatim>\<open>self\<close> and may raise: the exception, if any, and the object as
  the call leaves it (what was assigned before the exception stays assigned).
\<close>

type_synonym 'a outcome = "error option \<times> 'a"

definition and_then :: "'a outcome \<Rightarrow> ('a \<Rightarrow> 'a outcome) \<Rightarrow> 'a outcome" where
  "and_then r f = (case fst r of None \<Rightarrow> f (snd r) | Some e \<Rightarrow> r)"

text \<open>Python's \<^verbatim>\<open>xs[-1]\<close>: the last element, IndexError on the empty list.\<close>

definition py_last :: "'a list \<Rightarrow> error + 'a" where
  "py_last xs = (if xs = [] then Inl IndexError else Inr (last xs))"

subsection \<open>The options registry\<close>

text \<open>
  Modelled from the spec: \<^verbatim>\<open>utils.Options\<close> and the option methods of
  \<^verbatim>\<open>base.ChiggerObject\<close> (\<^verbatim>\<open>_setInitialOptions\<close>, \<^verbatim>\<open>setOptions\<close>,
  \<^verbatim>\<open>getOption\<close>) are not in the source tree. The spec describes a key/value
  configuration system with typed, validated, defaultable entries, whose update is
  "reset to option defaults, then merge the supplied overrides", and whose validation
  errors propagate. An entry holds what \<^verbatim>\<open>add(name, default, doc, vtype=..., allow=...)\<close>
  is given, and its current value.
\<close>

record option_entry =
  opt_default :: pyval
  opt_value :: pyval
  opt_doc :: string
  opt_vtype :: "pytype option"
  opt_allow :: "pyval list"

type_synonym options = "string \<rightharpoonup> option_entry"

type_synonym kwargs = "(string \<times> pyval) list"

text \<open>Modelled from the spec: the type of a value, for the check against \<^verbatim>\<open>vtype\<close>.\<close>

fun type_of :: "pyval \<Rightarrow> pytype option" where
  "type_of PyNone = None"
| "type_of (PyBool b) = Some TBool"
| "type_of (PyInt i) = Some TInt"
| "type_of (PyStr s) = Some TStr"

text \<open>Modelled from the spec: a value is accepted when it has the entry's type and is
  among the allowed values, where the entry restricts them.\<close>

definition valid_value :: "option_entry \<Rightarrow> pyval \<Rightarrow> bool" where
  "valid_value e v =
     ((case opt_vtype e of None \<Rightarrow> True | Some t \<Rightarrow> type_of v = Some t)
      \<and> (opt_allow e = [] \<or> v \<in> set (opt_allow e)))"

text \<open>Modelled from the spec: \<^verbatim>\<open>getOption(name)\<close>, the current value of an option
  (\<^verbatim>\<open>None\<close> for a name the registry does not hold).\<close>

definition getOption :: "options \<Rightarrow> string \<Rightarrow> pyval" where
  "getOption opts name = (case opts name of None \<Rightarrow> PyNone | Some e \<Rightarrow> opt_value e)"

text \<open>Modelled from the spec: \<^verbatim>\<open>_setInitialOptions()\<close>, "resetting to option
  defaults": every entry's value becomes its default again.\<close>

definition setInitialOptions :: "options \<Rightarrow> options" where
  "setInitialOptions opts = (\<lambda>name. map_option (\<lambda>e. e\<lparr>opt_value := opt_default e\<rparr>) (opts name))"

text \<open>Modelled from the spec: \<^verbatim>\<open>setOptions(**kwargs)\<close>, the overrides merged key by
  key in the order given; an unknown name or a value that fails validation raises.\<close>

fun setOptions :: "kwargs \<Rightarrow> options \<Rightarrow> error + options" where
  "setOptions [] opts = Inr opts"
| "setOptions ((name, v) # kw) opts =
     (case opts name of
        None \<Rightarrow> Inl (OptionError name)
      | Some e \<Rightarrow>
          if valid_value e v then setOptions kw (opts(name \<mapsto> e\<lparr>opt_value := v\<rparr>))
          else Inl (OptionError name))"

text \<open>Modelled from the spec: \<^verbatim>\<open>Options.__iadd__\<close>, not in the source tree.
  \<^verbatim>\<open>opt += other\<close> takes over the entries of the other registry.\<close>

definition iadd :: "options \<Rightarrow> options \<Rightarrow> options" where
  "iadd opt other = opt ++ other"

text \<open>Modelled from the spec: \<^verbatim>\<open>Options.add\<close>, not in the source tree. It creates
  an entry whose value is its default.\<close>

definition add :: "string \<Rightarrow> pyval \<Rightarrow> string \<Rightarrow> pytype option \<Rightarrow> pyval list \<Rightarrow> options \<Rightarrow> options" where
  "add name dflt doc vtype allow opt =
     opt(name \<mapsto> \<lparr>opt_default = dflt, opt_value = dflt, opt_doc = doc,
                   opt_vtype = vtype, opt_allow = allow\<rparr>)"

text \<open>Modelled from the spec: \<^verbatim>\<open>Options.setDefault\<close>, not in the source tree. It
  replaces the default of an entry the registry holds, and with it the value the entry
  has before any override; it raises when the registry holds no such entry.\<close>

definition setDefault :: "string \<Rightarrow> pyval \<Rightarrow> options \<Rightarrow> error + options" where
  "setDefault name v opt =
     (case opt name of
        None \<Rightarrow> Inl (OptionError name)
      | Some e \<Rightarrow> Inr (opt(name \<mapsto> e\<lparr>opt_default := v, opt_value := v\<rparr>)))"

subsection \<open>The mesh source, the filters and the label mapper\<close>

text \<open>
  Modelled from the spec: \<^verbatim>\<open>ExodusReader\<close> and \<^verbatim>\<open>ExodusSource\<close> are not in the
  source tree. The variable metadata carries an object-type tag, nodal or elemental; the
  mesh source exposes whether it is stale, its own filter chain, the metadata of its
  current variable (none when no variable is active) and its options.
\<close>

datatype object_type = NODAL | ELEMENTAL

record variable_information =
  object_type :: object_type

record exodus_filter =
  getVTKFilter :: vtk_object

record exodus_source =
  needsUpdate :: bool
  getFilters :: "exodus_filter list"
  getCurrentVariableInformation :: "variable_information option"
  source_options :: options

text \<open>
  Modelled from the spec: the module \<^verbatim>\<open>filters\<close> is not in the source tree. The spec
  names three composable stages, IdFilter, CellCenters and SelectVisiblePoints. An
  instance owns one VTK filter, created with it: \<open>stage_vtk\<close> is that filter's identity,
  \<open>input_connection\<close> the upstream filter it reads from and \<open>stage_renderer\<close> the
  renderer given to it, both unset in a new instance.
\<close>

datatype filter_type = IdFilter | CellCenters | SelectVisiblePoints

record filter_stage =
  stage_type :: filter_type
  stage_vtk :: vtk_object
  input_connection :: "vtk_object option"
  stage_renderer :: "vtk_object option"

text \<open>Modelled from the spec: the constructor of a filter class, called with no
  argument; \<open>i\<close> is the identity the new VTK filter gets.\<close>

definition new_filter :: "filter_type \<Rightarrow> vtk_object \<Rightarrow> filter_stage" where
  "new_filter t i =
     \<lparr>stage_type = t, stage_vtk = i, input_connection = None, stage_renderer = None\<rparr>"

text \<open>The \<^verbatim>\<open>vtkLabeledDataMapper\<close> of the VTK library, the spec's label-rendering
  object: the label mode (\<^verbatim>\<open>SetLabelModeToLabelIds\<close>,
  \<^verbatim>\<open>SetLabelModeToLabelFieldData\<close>), the field-data name (\<^verbatim>\<open>SetFieldDataName\<close>),
  the input connection and the text property (\<^verbatim>\<open>GetLabelTextProperty\<close>).\<close>

datatype label_mode = LabelIds | LabelFieldData

type_synonym text_property = "string \<rightharpoonup> pyval"

record labeled_data_mapper =
  label_mode :: label_mode
  field_data_name :: pyval
  mapper_input :: "vtk_object option"
  label_text_property :: text_property

section \<open>The class LabelExodusSource\<close>

text \<open>
  The attributes the base class \<^verbatim>\<open>base.ChiggerSource2D\<close> gives the object, and
  \<open>next_object\<close>, the identity the next object created will get.
\<close>

record chigger_source2d =
  options :: options
  required_filters :: "filter_stage list"
  vtkmapper :: labeled_data_mapper
  vtkrenderer :: vtk_object
  next_object :: nat

record label_exodus_source = chigger_source2d +
  exodus_source :: exodus_source

text \<open>An argument of the constructor: an \<^verbatim>\<open>ExodusSource\<close> (or an instance of a
  subclass), or an object of another class, known by its \<^verbatim>\<open>__class__.__name__\<close>.\<close>

datatype py_object = ExodusSourceObject exodus_source | OtherObject string

subsection \<open>getOptions\<close>

text \<open>
  \<^verbatim>\<open>base.ChiggerSource2D().getOptions()\<close> and \<^verbatim>\<open>utils.FontOptions.get_options()\<close>
  are parameters.
\<close>

definition getOptions :: "options \<Rightarrow> options \<Rightarrow> error + options" where
  "getOptions base_options font_options =
     (let opt = base_options;
          opt = iadd opt font_options;
          opt = add ''label_type'' (PyStr ''variable'') ''Specify the type of label to create.''
                  (Some TStr) [PyStr ''point'', PyStr ''cell'', PyStr ''variable''] opt
      in case setDefault ''justification'' (PyStr ''center'') opt of
           Inl e \<Rightarrow> Inl e
         | Inr opt \<Rightarrow> setDefault ''vertical_justification'' (PyStr ''middle'') opt)"

subsection \<open>The constructor\<close>

text \<open>
  \<open>base_init\<close> is the constructor of the base class, called with
  \<^verbatim>\<open>vtkmapper_type=vtk.vtkLabeledDataMapper\<close> and the keyword arguments.
\<close>

definition init ::
  "(kwargs \<Rightarrow> chigger_source2d) \<Rightarrow> py_object \<Rightarrow> kwargs \<Rightarrow> error + label_exodus_source" where
  "init base_init obj kw =
     (let self = base_init kw
      in case obj of
           OtherObject class_name \<Rightarrow>
             Inl (MooseException (''The supplied object of type '' @ class_name
                                   @ '' must be a ExodusSource object.''))
         | ExodusSourceObject src \<Rightarrow>
             Inr \<lparr>options = options self, required_filters = required_filters self,
                  vtkmapper = vtkmapper self, vtkrenderer = vtkrenderer self,
                  next_object = next_object self, exodus_source = src\<rparr>)"

subsection \<open>getVTKSource\<close>

definition getVTKSource :: "label_exodus_source \<Rightarrow> error + vtk_object" where
  "getVTKSource self =
     (case py_last (getFilters (exodus_source self)) of
        Inl e \<Rightarrow> Inl e
      | Inr f \<Rightarrow> Inr (getVTKFilter f))"

subsection \<open>update\<close>

text \<open>Lines 64-65: the mesh source is updated when it needs it. \<open>exodus_update\<close> is
  \<^verbatim>\<open>ExodusSource.update\<close>, which is not in the source tree.\<close>

definition update_source ::
  "(exodus_source \<Rightarrow> exodus_source) \<Rightarrow> label_exodus_source \<Rightarrow> label_exodus_source" where
  "update_source exodus_update self =
     (if needsUpdate (exodus_source self)
      then self\<lparr>exodus_source := exodus_update (exodus_source self)\<rparr>
      else self)"

text \<open>Lines 68-69: \<^verbatim>\<open>self._setInitialOptions()\<close>, then \<^verbatim>\<open>self.setOptions(**kwargs)\<close>.
  When the merge raises, the adapter is left with the options line 68 restored.\<close>

definition apply_options :: "kwargs \<Rightarrow> label_exodus_source \<Rightarrow> label_exodus_source outcome" where
  "apply_options kw self =
     (let self = self\<lparr>options := setInitialOptions (options self)\<rparr>
      in case setOptions kw (options self) of
           Inl e \<Rightarrow> (Some e, self)
         | Inr opts \<Rightarrow> (None, self\<lparr>options := opts\<rparr>))"

text \<open>Lines 72-86: the required filters and the label mode, by label type. The filters of
  a list are created from left to right.\<close>

definition select_filters :: "label_exodus_source \<Rightarrow> label_exodus_source outcome" where
  "select_filters self =
     (let label_type = getOption (options self) ''label_type'';
          n = next_object self
      in if label_type = PyStr ''cell'' then
           (None, self\<lparr>required_filters :=
                          [new_filter IdFilter n, new_filter CellCenters (n + 1),
                           new_filter SelectVisiblePoints (n + 2)],
                        next_object := n + 3,
                        vtkmapper := (vtkmapper self)\<lparr>label_mode := LabelIds\<rparr>\<rparr>)
         else if label_type = PyStr ''point'' then
           (None, self\<lparr>required_filters :=
                          [new_filter IdFilter n, new_filter SelectVisiblePoints (n + 1)],
                        next_object := n + 2,
                        vtkmapper := (vtkmapper self)\<lparr>label_mode := LabelIds\<rparr>\<rparr>)
         else
           (case getCurrentVariableInformation (exodus_source self) of
              None \<Rightarrow> (Some NoVariableInformation, self)
            | Some varinfo \<Rightarrow>
                let self =
                      (if object_type varinfo = ELEMENTAL then
                         self\<lparr>required_filters :=
                                [new_filter CellCenters n,
                                 new_filter SelectVisiblePoints (n + 1)],
                              next_object := n + 2\<rparr>
                       else
                         self\<lparr>required_filters := [new_filter SelectVisiblePoints n],
                              next_object := n + 1\<rparr>)
                in (None, self\<lparr>vtkmapper := (vtkmapper self)
                       \<lparr>field_data_name :=
                          getOption (source_options (exodus_source self)) ''variable'',
                        label_mode := LabelFieldData\<rparr>\<rparr>)))"

text \<open>
  Modelled from the spec: the wiring the base class does, which is not in the source tree.
  Every stage reads from the one before it, the first from the upstream filter.
\<close>

fun connect_filters :: "vtk_object \<Rightarrow> filter_stage list \<Rightarrow> filter_stage list" where
  "connect_filters upstream [] = []"
| "connect_filters upstream (f # fs) =
     f\<lparr>input_connection := Some upstream\<rparr> # connect_filters (stage_vtk f) fs"

text \<open>
  Modelled from the spec: line 89 calls the \<^verbatim>\<open>update\<close> of the base class, which is
  not in the source tree. The spec's base composition routine "wires each stage's
  input/output ports into a linear pipeline and connects the final stage to the
  label-rendering object"; the pipeline starts at the filter \<^verbatim>\<open>getVTKSource\<close>
  returns, for the assembler to attach the adapter's filters downstream of it.
\<close>

definition base_update :: "label_exodus_source \<Rightarrow> label_exodus_source outcome" where
  "base_update self =
     (case getVTKSource self of
        Inl e \<Rightarrow> (Some e, self)
      | Inr upstream \<Rightarrow>
          (None, self\<lparr>required_filters := connect_filters upstream (required_filters self),
                       vtkmapper := (vtkmapper self)
                         \<lparr>mapper_input :=
                            Some (last (upstream # map stage_vtk (required_filters self)))\<rparr>\<rparr>))"

text \<open>Line 92: the renderer is given to the VTK filter of the last required filter.\<close>

definition set_renderer :: "label_exodus_source \<Rightarrow> label_exodus_source outcome" where
  "set_renderer self =
     (case py_last (required_filters self) of
        Inl e \<Rightarrow> (Some e, self)
      | Inr f \<Rightarrow>
          (None, self\<lparr>required_filters :=
                         butlast (required_filters self)
                         @ [f\<lparr>stage_renderer := Some (vtkrenderer self)\<rparr>]\<rparr>))"

text \<open>Line 95: the font options are applied to the mapper's text property.
  \<open>font_set_options\<close> is \<^verbatim>\<open>utils.FontOptions.set_options\<close>, which is not in the source
  tree.\<close>

definition update_fonts ::
  "(text_property \<Rightarrow> options \<Rightarrow> text_property) \<Rightarrow> label_exodus_source
     \<Rightarrow> label_exodus_source outcome" where
  "update_fonts font_set_options self =
     (None, self\<lparr>vtkmapper := (vtkmapper self)
        \<lparr>label_text_property :=
           font_set_options (label_text_property (vtkmapper self)) (options self)\<rparr>\<rparr>)"

definition update ::
  "(exodus_source \<Rightarrow> exodus_source) \<Rightarrow> (text_property \<Rightarrow> options \<Rightarrow> text_property)
     \<Rightarrow> kwargs \<Rightarrow> label_exodus_source \<Rightarrow> label_exodus_source outcome" where
  "update exodus_update font_set_options kw self =
     and_then (and_then (and_then (and_then
       (apply_options kw (update_source exodus_update self))
       select_filters)
       base_update)
       set_renderer)
       (update_fonts font_set_options)"

subsection \<open>A sequence of calls\<close>

text \<open>The object after a caller has made the calls \<^verbatim>\<open>update(**kw)\<close> of a history one
  after the other, going on after a call that raised.\<close>

fun updates ::
  "(exodus_source \<Rightarrow> exodus_source) \<Rightarrow> (text_property \<Rightarrow> options \<Rightarrow> text_property)
     \<Rightarrow> kwargs list \<Rightarrow> label_exodus_source \<Rightarrow> label_exodus_source" where
  "updates exodus_update font_set_options [] self = self"
| "updates exodus_update font_set_options (kw # history) self =
     updates exodus_update font_set_options history
       (snd (update exodus_update font_set_options kw self))"

text \<open>Every required filter was created before now: its identity is below the one the
  next object will get.\<close>

definition filters_allocated :: "label_exodus_source \<Rightarrow> bool" where
  "filters_allocated self =
     list_all (\<lambda>f. stage_vtk f < next_object self) (required_filters self)"

section \<open>Example objects\<close>

definition example_base_options :: options where
  "example_base_options =
     [''opacity'' \<mapsto> \<lparr>opt_default = PyInt 1, opt_value = PyInt 1, opt_doc = ''opacity'',
                      opt_vtype = Some TInt, opt_allow = []\<rparr>]"

definition example_font_options :: options where
  "example_font_options =
     [''justification'' \<mapsto>
        \<lparr>opt_default = PyStr ''left'', opt_value = PyStr ''left'', opt_doc = ''horizontal'',
         opt_vtype = Some TStr,
         opt_allow = [PyStr ''left'', PyStr ''center'', PyStr ''right'']\<rparr>,
      ''vertical_justification'' \<mapsto>
        \<lparr>opt_default = PyStr ''bottom'', opt_value = PyStr ''bottom'', opt_doc = ''vertical'',
         opt_vtype = Some TStr,
         opt_allow = [PyStr ''bottom'', PyStr ''middle'', PyStr ''top'']\<rparr>]"

definition example_options :: options where
  "example_options =
     [''label_type'' \<mapsto>
        \<lparr>opt_default = PyStr ''variable'', opt_value = PyStr ''variable'',
         opt_doc = ''Specify the type of label to create.'', opt_vtype = Some TStr,
         opt_allow = [PyStr ''point'', PyStr ''cell'', PyStr ''variable'']\<rparr>]"

definition example_source :: exodus_source where
  "example_source =
     \<lparr>needsUpdate = True, getFilters = [\<lparr>getVTKFilter = 0\<rparr>],
      getCurrentVariableInformation = Some \<lparr>object_type = NODAL\<rparr>,
      source_options =
        [''variable'' \<mapsto> \<lparr>opt_default = PyNone, opt_value = PyStr ''temperature'',
                          opt_doc = ''variable'', opt_vtype = Some TStr, opt_allow = []\<rparr>]\<rparr>"

definition example_source_update :: "exodus_source \<Rightarrow> exodus_source" where
  "example_source_update src =
     src\<lparr>needsUpdate := False,
         getCurrentVariableInformation := Some \<lparr>object_type = ELEMENTAL\<rparr>\<rparr>"

definition example_font_set_options :: "text_property \<Rightarrow> options \<Rightarrow> text_property" where
  "example_font_set_options prop opts = prop(''justification'' \<mapsto> getOption opts ''justification'')"

definition example_self :: label_exodus_source where
  "example_self =
     \<lparr>options = example_options, required_filters = [],
      vtkmapper = \<lparr>label_mode = LabelIds, field_data_name = PyNone, mapper_input = None,
                   label_text_property = Map.empty\<rparr>,
      vtkrenderer = 1, next_object = 2, exodus_source = example_source\<rparr>"

definition example_after_cell :: label_exodus_source where
  "example_after_cell =
     snd (update example_source_update example_font_set_options
            [(''label_type'', PyStr ''cell'')] example_self)"

section \<open>Properties of the steps of update\<close>

lemma and_then_frame:
  assumes "\<And>s. Q (snd (f s)) = Q s"
  shows "Q (snd (and_then r f)) = Q (snd r)"
  using assms by (cases "fst r") (simp_all add: and_then_def)

lemma and_then_ok:
  "fst (and_then r f) = None \<longleftrightarrow> fst r = None \<and> fst (f (snd r)) = None"
  by (cases "fst r") (simp_all add: and_then_def)

lemma and_then_None: "fst r = None \<Longrightarrow> and_then r f = f (snd r)"
  by (simp add: and_then_def)

lemma map_connect_type: "map stage_type (connect_filters u fs) = map stage_type fs"
  by (induction fs arbitrary: u) auto

lemma map_connect_vtk: "map stage_vtk (connect_filters u fs) = map stage_vtk fs"
  by (induction fs arbitrary: u) auto

lemma map_butlast_last:
  "fs \<noteq> [] \<Longrightarrow> map g (butlast fs) @ [g (last fs)] = map g fs"
  by (induction fs) auto

text \<open>What the steps after the selection of the filters leave as it is.\<close>

lemma base_update_frame:
  "map stage_type (required_filters (snd (base_update s))) = map stage_type (required_filters s)"
  "map stage_vtk (required_filters (snd (base_update s))) = map stage_vtk (required_filters s)"
  "label_mode (vtkmapper (snd (base_update s))) = label_mode (vtkmapper s)"
  "field_data_name (vtkmapper (snd (base_update s))) = field_data_name (vtkmapper s)"
  "options (snd (base_update s)) = options s"
  "exodus_source (snd (base_update s)) = exodus_source s"
  "next_object (snd (base_update s)) = next_object s"
  "vtkrenderer (snd (base_update s)) = vtkrenderer s"
  by (simp_all add: base_update_def map_connect_type map_connect_vtk split: sum.splits)

lemma set_renderer_frame:
  "map stage_type (required_filters (snd (set_renderer s))) = map stage_type (required_filters s)"
  "map stage_vtk (required_filters (snd (set_renderer s))) = map stage_vtk (required_filters s)"
  "label_mode (vtkmapper (snd (set_renderer s))) = label_mode (vtkmapper s)"
  "field_data_name (vtkmapper (snd (set_renderer s))) = field_data_name (vtkmapper s)"
  "options (snd (set_renderer s)) = options s"
  "exodus_source (snd (set_renderer s)) = exodus_source s"
  "next_object (snd (set_renderer s)) = next_object s"
  "vtkrenderer (snd (set_renderer s)) = vtkrenderer s"
  by (simp_all add: set_renderer_def py_last_def map_butlast_last)

lemma update_fonts_frame:
  "map stage_type (required_filters (snd (update_fonts fs s))) = map stage_type (required_filters s)"
  "map stage_vtk (required_filters (snd (update_fonts fs s))) = map stage_vtk (required_filters s)"
  "label_mode (vtkmapper (snd (update_fonts fs s))) = label_mode (vtkmapper s)"
  "field_data_name (vtkmapper (snd (update_fonts fs s))) = field_data_name (vtkmapper s)"
  "options (snd (update_fonts fs s)) = options s"
  "exodus_source (snd (update_fonts fs s)) = exodus_source s"
  "next_object (snd (update_fonts fs s)) = next_object s"
  "vtkrenderer (snd (update_fonts fs s)) = vtkrenderer s"
  by (simp_all add: update_fonts_def)

lemma update_frame:
  assumes "\<And>s. Q (snd (base_update s)) = Q s"
      and "\<And>s. Q (snd (set_renderer s)) = Q s"
      and "\<And>s. Q (snd (update_fonts fs s)) = Q s"
  shows "Q (snd (update su fs kw self))
         = Q (snd (and_then (apply_options kw (update_source su self)) select_filters))"
proof -
  let ?a = "and_then (apply_options kw (update_source su self)) select_filters"
  let ?b = "and_then ?a base_update"
  let ?c = "and_then ?b set_renderer"
  have "Q (snd (update su fs kw self)) = Q (snd ?c)"
    unfolding update_def using assms(3) by (rule and_then_frame)
  also have "\<dots> = Q (snd ?b)"
    using assms(2) by (rule and_then_frame)
  also have "\<dots> = Q (snd ?a)"
    using assms(1) by (rule and_then_frame)
  finally show ?thesis .
qed

text \<open>So the filter types, the filter identities, the label mode, the field-data name,
  the options, the mesh source, the allocator and the renderer after \<open>update\<close> are
  those the selection of the filters left.\<close>

lemma update_selected:
  fixes su fs kw self
  defines "sel \<equiv> snd (and_then (apply_options kw (update_source su self)) select_filters)"
  shows "map stage_type (required_filters (snd (update su fs kw self)))
           = map stage_type (required_filters sel)"
    and "map stage_vtk (required_filters (snd (update su fs kw self)))
           = map stage_vtk (required_filters sel)"
    and "label_mode (vtkmapper (snd (update su fs kw self))) = label_mode (vtkmapper sel)"
    and "field_data_name (vtkmapper (snd (update su fs kw self)))
           = field_data_name (vtkmapper sel)"
    and "options (snd (update su fs kw self)) = options sel"
    and "exodus_source (snd (update su fs kw self)) = exodus_source sel"
    and "next_object (snd (update su fs kw self)) = next_object sel"
    and "vtkrenderer (snd (update su fs kw self)) = vtkrenderer sel"
  unfolding sel_def
  by (rule update_frame, simp_all add: base_update_frame set_renderer_frame update_fonts_frame)+

lemma options_update_source: "options (update_source su self) = options self"
  by (simp add: update_source_def)

lemma resolved_select:
  assumes "setOptions kw (setInitialOptions (options self)) = Inr opts"
  shows "and_then (apply_options kw (update_source su self)) select_filters
         = select_filters ((update_source su self)\<lparr>options := opts\<rparr>)"
  using assms by (simp add: apply_options_def and_then_def options_update_source Let_def)

text \<open>What the steps up to the selection of the filters leave as it is.\<close>

lemma update_source_id: "update_source (\<lambda>src. src) self = self"
  by (simp add: update_source_def)

lemma apply_options_frame:
  "exodus_source (snd (apply_options kw s)) = exodus_source s"
  "required_filters (snd (apply_options kw s)) = required_filters s"
  "vtkmapper (snd (apply_options kw s)) = vtkmapper s"
  "next_object (snd (apply_options kw s)) = next_object s"
  "vtkrenderer (snd (apply_options kw s)) = vtkrenderer s"
  by (simp_all add: apply_options_def Let_def split: sum.splits)

lemma select_filters_frame:
  "exodus_source (snd (select_filters s)) = exodus_source s"
  "options (snd (select_filters s)) = options s"
  "vtkrenderer (snd (select_filters s)) = vtkrenderer s"
  by (simp_all add: select_filters_def Let_def split: option.splits)

lemma selected_frame:
  "exodus_source (snd (and_then (apply_options kw s) select_filters)) = exodus_source s"
  "vtkrenderer (snd (and_then (apply_options kw s) select_filters)) = vtkrenderer s"
  by (simp_all add: and_then_frame [where Q = exodus_source] and_then_frame [where Q = vtkrenderer]
      select_filters_frame apply_options_frame)

lemma update_exodus_source:
  "exodus_source (snd (update su fs kw self)) = exodus_source (update_source su self)"
  by (simp add: update_selected selected_frame)

lemma update_vtkrenderer:
  "vtkrenderer (snd (update su fs kw self)) = vtkrenderer self"
  by (simp add: update_selected selected_frame update_source_def)

text \<open>A call that returns has passed every step.\<close>

lemma update_ok:
  assumes "fst (update su fs kw self) = None"
  defines "s1 \<equiv> snd (apply_options kw (update_source su self))"
  defines "s2 \<equiv> snd (select_filters s1)"
  defines "s3 \<equiv> snd (base_update s2)"
  defines "s4 \<equiv> snd (set_renderer s3)"
  shows "fst (apply_options kw (update_source su self)) = None"
    and "fst (select_filters s1) = None"
    and "fst (base_update s2) = None"
    and "fst (set_renderer s3) = None"
    and "snd (update su fs kw self) = snd (update_fonts fs s4)"
proof -
  let ?a = "apply_options kw (update_source su self)"
  let ?b = "and_then ?a select_filters"
  let ?c = "and_then ?b base_update"
  let ?d = "and_then ?c set_renderer"
  from assms(1) have d: "fst ?d = None"
    unfolding update_def by (simp add: and_then_ok)
  then have c: "fst ?c = None" by (simp add: and_then_ok)
  then have b: "fst ?b = None" by (simp add: and_then_ok)
  then show a: "fst ?a = None" by (simp add: and_then_ok)
  have b_eq: "?b = select_filters s1" using a by (simp add: and_then_None s1_def)
  show b': "fst (select_filters s1) = None" using b b_eq by simp
  have c_eq: "?c = base_update s2" using b b_eq by (simp add: and_then_None s2_def)
  show c': "fst (base_update s2) = None" using c c_eq by simp
  have d_eq: "?d = set_renderer s3" using c c_eq by (simp add: and_then_None s3_def)
  show d': "fst (set_renderer s3) = None" using d d_eq by simp
  show "snd (update su fs kw self) = snd (update_fonts fs s4)"
    unfolding update_def using d d_eq by (simp add: and_then_None s4_def)
qed

lemma select_filters_ok:
  assumes "fst (select_filters s) = None"
  shows "required_filters (snd (select_filters s)) \<noteq> []"
    and "last (map stage_type (required_filters (snd (select_filters s)))) = SelectVisiblePoints"
    and "list_all (\<lambda>i. next_object s \<le> i \<and> i < next_object (snd (select_filters s)))
           (map stage_vtk (required_filters (snd (select_filters s))))"
    and "distinct (map stage_vtk (required_filters (snd (select_filters s))))"
  using assms
  by (simp_all add: select_filters_def new_filter_def Let_def split: option.splits if_splits)

lemma set_renderer_ok:
  assumes "fst (set_renderer s) = None"
  shows "required_filters s \<noteq> []"
    and "required_filters (snd (set_renderer s))
           = butlast (required_filters s)
             @ [(last (required_filters s))\<lparr>stage_renderer := Some (vtkrenderer s)\<rparr>]"
  using assms by (simp_all add: set_renderer_def py_last_def split: if_splits)

lemma update_fonts_filters:
  "required_filters (snd (update_fonts fs s)) = required_filters s"
  by (simp add: update_fonts_def)

lemma base_update_ok:
  assumes "fst (base_update s) = None" and "required_filters s \<noteq> []"
  shows "mapper_input (vtkmapper (snd (base_update s)))
           = Some (last (map stage_vtk (required_filters s)))"
  using assms by (simp add: base_update_def split: sum.splits)

lemma set_renderer_mapper: "vtkmapper (snd (set_renderer s)) = vtkmapper s"
  by (simp add: set_renderer_def py_last_def)

lemma update_fonts_mapper_input:
  "mapper_input (vtkmapper (snd (update_fonts fs s))) = mapper_input (vtkmapper s)"
  by (simp add: update_fonts_def)

text \<open>The table of lines 72-84, read off the state the selection started from.\<close>

lemma selected_table:
  assumes "fst (select_filters s) = None"
  shows "(getOption (options s) ''label_type'' = PyStr ''cell'' \<longrightarrow>
            map stage_type (required_filters (snd (select_filters s)))
              = [IdFilter, CellCenters, SelectVisiblePoints])
       \<and> (getOption (options s) ''label_type'' = PyStr ''point'' \<longrightarrow>
            map stage_type (required_filters (snd (select_filters s)))
              = [IdFilter, SelectVisiblePoints])
       \<and> (getOption (options s) ''label_type'' \<notin> {PyStr ''cell'', PyStr ''point''} \<longrightarrow>
            (\<exists>varinfo. getCurrentVariableInformation (exodus_source s) = Some varinfo
               \<and> map stage_type (required_filters (snd (select_filters s)))
                   = (if object_type varinfo = ELEMENTAL
                      then [CellCenters, SelectVisiblePoints] else [SelectVisiblePoints])))"
  using assms
  by (auto simp add: select_filters_def new_filter_def Let_def split: option.splits if_splits)

text \<open>The equations that evaluate a call of \<open>update\<close> on the example objects.\<close>

lemmas example_defs =
  example_self_def example_options_def example_source_def example_source_update_def
  example_font_set_options_def

lemmas update_eval =
  update_def and_then_def apply_options_def update_source_def select_filters_def
  base_update_def set_renderer_def update_fonts_def getVTKSource_def py_last_def
  new_filter_def setInitialOptions_def getOption_def valid_value_def Let_def









lemma label_type_valid:
  "valid_value \<lparr>opt_default = d, opt_value = x, opt_doc = doc, opt_vtype = Some TStr,
                 opt_allow = [PyStr ''point'', PyStr ''cell'', PyStr ''variable'']\<rparr> v
   = (v \<in> {PyStr ''point'', PyStr ''cell'', PyStr ''variable''})"
  by (cases v) (auto simp add: valid_value_def)

text \<open>When a call of \<open>update\<close> returns: the keyword arguments pass the validation, the
  variable metadata is there when the label type asks for it, and the mesh source has a
  filter for the pipeline to start from.\<close>

lemma apply_options_returns:
  "fst (apply_options kw s) = None
   \<longleftrightarrow> (\<exists>opts. setOptions kw (setInitialOptions (options s)) = Inr opts)"
  by (simp add: apply_options_def Let_def split: sum.splits)

lemma apply_options_result:
  "setOptions kw (setInitialOptions (options s)) = Inr opts
   \<Longrightarrow> snd (apply_options kw s) = s\<lparr>options := opts\<rparr>"
  by (simp add: apply_options_def Let_def)

lemma select_filters_returns:
  "fst (select_filters s) = None
   \<longleftrightarrow> getOption (options s) ''label_type'' \<in> {PyStr ''cell'', PyStr ''point''}
       \<or> getCurrentVariableInformation (exodus_source s) \<noteq> None"
  by (auto simp add: select_filters_def Let_def split: option.splits)

lemma base_update_returns:
  "fst (base_update s) = None \<longleftrightarrow> getFilters (exodus_source s) \<noteq> []"
  by (simp add: base_update_def getVTKSource_def py_last_def split: sum.splits)

lemma set_renderer_returns:
  "fst (set_renderer s) = None \<longleftrightarrow> required_filters s \<noteq> []"
  by (simp add: set_renderer_def py_last_def)

lemma base_update_nonempty:
  "required_filters (snd (base_update s)) = [] \<longleftrightarrow> required_filters s = []"
  using base_update_frame(1) [of s] by (metis map_is_Nil_conv)

lemma update_returns:
  "fst (update su fs kw self) = None
   \<longleftrightarrow> (\<exists>opts. setOptions kw (setInitialOptions (options self)) = Inr opts
          \<and> (getOption opts ''label_type'' \<in> {PyStr ''cell'', PyStr ''point''}
             \<or> getCurrentVariableInformation (exodus_source (update_source su self)) \<noteq> None))
       \<and> getFilters (exodus_source (update_source su self)) \<noteq> []"
proof -
  let ?s0 = "update_source su self"
  let ?s1 = "snd (apply_options kw ?s0)"
  let ?s2 = "snd (select_filters ?s1)"
  let ?s3 = "snd (base_update ?s2)"
  let ?s4 = "snd (set_renderer ?s3)"
  have steps: "fst (update su fs kw self) = None
      \<longleftrightarrow> fst (apply_options kw ?s0) = None \<and> fst (select_filters ?s1) = None
          \<and> fst (base_update ?s2) = None \<and> fst (set_renderer ?s3) = None"
    unfolding update_def
    by (auto simp add: and_then_ok and_then_None update_fonts_def)
  have last: "fst (select_filters ?s1) = None \<Longrightarrow> fst (set_renderer ?s3) = None"
    using select_filters_ok(1) [of ?s1]
    by (simp add: set_renderer_returns base_update_nonempty)
  have src: "exodus_source ?s2 = exodus_source ?s0"
    by (simp add: select_filters_frame apply_options_frame)
  have sel: "fst (apply_options kw ?s0) = None \<and> fst (select_filters ?s1) = None
      \<longleftrightarrow> (\<exists>opts. setOptions kw (setInitialOptions (options self)) = Inr opts
          \<and> (getOption opts ''label_type'' \<in> {PyStr ''cell'', PyStr ''point''}
             \<or> getCurrentVariableInformation (exodus_source ?s0) \<noteq> None))"
    by (auto simp add: apply_options_returns options_update_source apply_options_result
          select_filters_returns)
  show ?thesis
    using steps last sel by (auto simp add: base_update_returns src)
qed

text \<open>Every call, returning or raising, leaves required filters that were created before
  the call ended; so does every sequence of calls.\<close>

lemma no_filters_allocated: "required_filters self = [] \<Longrightarrow> filters_allocated self"
  by (simp add: filters_allocated_def)

lemma update_keeps_allocated:
  assumes "filters_allocated self"
  shows "filters_allocated (snd (update su fs kw self))"
proof -
  let ?s0 = "update_source su self"
  let ?a = "apply_options kw ?s0"
  let ?sel = "snd (and_then ?a select_filters)"
  have start: "filters_allocated (snd ?a)"
    using assms
    by (simp add: filters_allocated_def apply_options_frame update_source_def)
  have sel: "filters_allocated ?sel"
  proof (cases "fst ?a = None \<and> fst (select_filters (snd ?a)) = None")
    case True
    then have "?sel = snd (select_filters (snd ?a))"
      by (simp add: and_then_None)
    moreover have "list_all (\<lambda>i. i < next_object (snd (select_filters (snd ?a))))
           (map stage_vtk (required_filters (snd (select_filters (snd ?a)))))"
      using select_filters_ok(3) [of "snd ?a"] True by (simp add: list_all_iff)
    ultimately show ?thesis
      by (simp add: filters_allocated_def list_all_iff)
  next
    case False
    then have "?sel = snd ?a"
      by (auto simp add: and_then_def select_filters_def Let_def split: option.splits)
    then show ?thesis using start by simp
  qed
  have "list_all (\<lambda>i. i < next_object (snd (update su fs kw self)))
          (map stage_vtk (required_filters (snd (update su fs kw self))))"
    using sel unfolding update_selected by (simp add: filters_allocated_def list_all_iff)
  then show ?thesis
    by (simp add: filters_allocated_def list_all_iff)
qed

lemma updates_keep_allocated:
  "filters_allocated self \<Longrightarrow> filters_allocated (updates su fs history self)"
  by (induction history arbitrary: self) (simp_all add: update_keeps_allocated)

section \<open>The decision table of update\<close>

text \<open>
  C1. Whenever a call of \<open>update\<close> resolves its options (the defaults restored, the
  keyword arguments merged without an error), the adapter holds the resolved options
  afterwards, and: if the resolved \<^verbatim>\<open>label_type\<close> is \<^verbatim>\<open>'cell'\<close>, the required filters
  afterwards are exactly an IdFilter, a CellCenters and a SelectVisiblePoints, in that
  order; if it is \<^verbatim>\<open>'point'\<close>, exactly an IdFilter and a SelectVisiblePoints; in both
  cases the mapper labels by ID. Nothing is assumed of the mesh source, its variable
  metadata may be anything or missing, and the later steps of the call may succeed or
  raise.
\<close>

theorem update_label_ids:
  assumes "setOptions kw (setInitialOptions (options self)) = Inr opts"
  shows "options (snd (update su fs kw self)) = opts
       \<and> (getOption opts ''label_type'' = PyStr ''cell'' \<longrightarrow>
            map stage_type (required_filters (snd (update su fs kw self)))
              = [IdFilter, CellCenters, SelectVisiblePoints]
            \<and> label_mode (vtkmapper (snd (update su fs kw self))) = LabelIds)
       \<and> (getOption opts ''label_type'' = PyStr ''point'' \<longrightarrow>
            map stage_type (required_filters (snd (update su fs kw self)))
              = [IdFilter, SelectVisiblePoints]
            \<and> label_mode (vtkmapper (snd (update su fs kw self))) = LabelIds)"
  by (simp add: update_selected resolved_select [OF assms] select_filters_def new_filter_def
        Let_def split: option.splits)

theorem update_label_ids_witness:
  "getOption (options (snd (update example_source_update example_font_set_options
       [(''label_type'', PyStr ''cell'')] example_self))) ''label_type'' = PyStr ''cell''
   \<and> map stage_type (required_filters (snd (update example_source_update
       example_font_set_options [(''label_type'', PyStr ''cell'')] example_self)))
     = [IdFilter, CellCenters, SelectVisiblePoints]
   \<and> label_mode (vtkmapper (snd (update example_source_update example_font_set_options
       [(''label_type'', PyStr ''cell'')] example_self))) = LabelIds
   \<and> getOption (options (snd (update example_source_update example_font_set_options
       [(''label_type'', PyStr ''point'')] example_self))) ''label_type'' = PyStr ''point''
   \<and> map stage_type (required_filters (snd (update example_source_update
       example_font_set_options [(''label_type'', PyStr ''point'')] example_self)))
     = [IdFilter, SelectVisiblePoints]
   \<and> label_mode (vtkmapper (snd (update example_source_update example_font_set_options
       [(''label_type'', PyStr ''point'')] example_self))) = LabelIds"
proof -
  obtain c where c: "setOptions [(''label_type'', PyStr ''cell'')]
                       (setInitialOptions (options example_self)) = Inr c"
    and c_type: "getOption c ''label_type'' = PyStr ''cell''"
    by (simp add: example_defs setInitialOptions_def valid_value_def getOption_def)
  obtain p where p: "setOptions [(''label_type'', PyStr ''point'')]
                       (setInitialOptions (options example_self)) = Inr p"
    and p_type: "getOption p ''label_type'' = PyStr ''point''"
    by (simp add: example_defs setInitialOptions_def valid_value_def getOption_def)
  show ?thesis
    using update_label_ids [OF c, of example_source_update example_font_set_options]
      update_label_ids [OF p, of example_source_update example_font_set_options]
      c_type p_type
    by simp
qed

text \<open>
  C2. Whenever a call of \<open>update\<close> resolves \<^verbatim>\<open>label_type\<close> to \<^verbatim>\<open>'variable'\<close>, the
  default, and the mesh source (updated first, if it was stale) has metadata for its
  current variable: the required filters afterwards are exactly a CellCenters and a
  SelectVisiblePoints when the variable's object type is elemental, and exactly a
  SelectVisiblePoints otherwise; in both cases the mapper labels by field data, and the
  field-data name is the value of the mesh source's \<^verbatim>\<open>variable\<close> option, the name
  of its active variable.
\<close>

theorem update_label_field_data:
  assumes "setOptions kw (setInitialOptions (options self)) = Inr opts"
      and "getOption opts ''label_type'' = PyStr ''variable''"
      and "getCurrentVariableInformation (exodus_source (update_source su self)) = Some varinfo"
  shows "exodus_source (snd (update su fs kw self)) = exodus_source (update_source su self)
       \<and> (object_type varinfo = ELEMENTAL \<longrightarrow>
            map stage_type (required_filters (snd (update su fs kw self)))
              = [CellCenters, SelectVisiblePoints])
       \<and> (object_type varinfo \<noteq> ELEMENTAL \<longrightarrow>
            map stage_type (required_filters (snd (update su fs kw self)))
              = [SelectVisiblePoints])
       \<and> label_mode (vtkmapper (snd (update su fs kw self))) = LabelFieldData
       \<and> field_data_name (vtkmapper (snd (update su fs kw self)))
           = getOption (source_options (exodus_source (snd (update su fs kw self)))) ''variable''"
  using assms(2,3)
  by (simp add: update_selected resolved_select [OF assms(1)] select_filters_def new_filter_def
        Let_def)

theorem update_label_field_data_witness:
  "map stage_type (required_filters (snd (update example_source_update
       example_font_set_options [] example_self))) = [CellCenters, SelectVisiblePoints]
   \<and> label_mode (vtkmapper (snd (update example_source_update example_font_set_options []
       example_self))) = LabelFieldData
   \<and> field_data_name (vtkmapper (snd (update example_source_update example_font_set_options []
       example_self))) = PyStr ''temperature''
   \<and> map stage_type (required_filters (snd (update (\<lambda>src. src)
       example_font_set_options [] example_self))) = [SelectVisiblePoints]"
proof -
  have opts: "setOptions [] (setInitialOptions (options example_self))
                = Inr (setInitialOptions (options example_self))"
    by simp
  have label_type: "getOption (setInitialOptions (options example_self)) ''label_type''
                      = PyStr ''variable''"
    by (simp add: example_defs setInitialOptions_def getOption_def)
  have elemental: "getCurrentVariableInformation
                     (exodus_source (update_source example_source_update example_self))
                   = Some \<lparr>object_type = ELEMENTAL\<rparr>"
    by (simp add: example_defs update_source_def)
  have nodal: "getCurrentVariableInformation
                 (exodus_source (update_source (\<lambda>src. src) example_self))
               = Some \<lparr>object_type = NODAL\<rparr>"
    by (simp add: example_defs update_source_def)
  have name: "getOption (source_options (exodus_source
                 (update_source example_source_update example_self))) ''variable''
              = PyStr ''temperature''"
    by (simp add: example_defs update_source_def getOption_def)
  show ?thesis
    using update_label_field_data [OF opts label_type elemental, of example_font_set_options]
      update_label_field_data [OF opts label_type nodal, of example_font_set_options] name
    by simp
qed

section \<open>The mesh source is updated first\<close>

text \<open>
  C6. A call of \<open>update\<close> on an adapter whose mesh source is stale is the call that
  makes no refresh at all, run on the adapter whose mesh source has been refreshed: the
  refresh comes before the options are merged and the filters selected, and those steps
  see the refreshed source. On an adapter whose mesh source is not stale, the call is the
  one that makes no refresh, on the same adapter: \<^verbatim>\<open>ExodusSource.update\<close> is not called
  and the mesh source is left as it was.
\<close>

theorem update_source_first:
  "(needsUpdate (exodus_source self) \<longrightarrow>
      update su fs kw self
        = update (\<lambda>src. src) fs kw (self\<lparr>exodus_source := su (exodus_source self)\<rparr>)
      \<and> exodus_source (snd (update su fs kw self)) = su (exodus_source self))
   \<and> (\<not> needsUpdate (exodus_source self) \<longrightarrow>
      update su fs kw self = update (\<lambda>src. src) fs kw self
      \<and> exodus_source (snd (update su fs kw self)) = exodus_source self)"
  by (simp add: update_exodus_source) (simp add: update_def update_source_id, simp add: update_source_def)

theorem update_source_first_witness:
  "needsUpdate (exodus_source example_self)
   \<and> update example_source_update example_font_set_options [] example_self
       = update (\<lambda>src. src) example_font_set_options []
           (example_self\<lparr>exodus_source := example_source_update (exodus_source example_self)\<rparr>)
   \<and> exodus_source (snd (update example_source_update example_font_set_options [] example_self))
       = example_source_update (exodus_source example_self)
   \<and> \<not> needsUpdate (example_source_update (exodus_source example_self))
   \<and> exodus_source (snd (update example_source_update example_font_set_options []
        (example_self\<lparr>exodus_source := example_source_update (exodus_source example_self)\<rparr>)))
       = example_source_update (exodus_source example_self)"
proof -
  let ?refreshed =
    "example_self\<lparr>exodus_source := example_source_update (exodus_source example_self)\<rparr>"
  have stale: "needsUpdate (exodus_source example_self)"
    by (simp add: example_defs)
  have fresh: "\<not> needsUpdate (example_source_update (exodus_source example_self))"
    by (simp add: example_defs)
  then have fresh': "\<not> needsUpdate (exodus_source ?refreshed)"
    by simp
  have first: "update example_source_update example_font_set_options [] example_self
       = update (\<lambda>src. src) example_font_set_options [] ?refreshed
     \<and> exodus_source (snd (update example_source_update example_font_set_options []
          example_self)) = example_source_update (exodus_source example_self)"
    using update_source_first [of example_self example_source_update
        example_font_set_options "[]"] stale
    by blast
  have "exodus_source (snd (update example_source_update example_font_set_options []
          ?refreshed)) = exodus_source ?refreshed"
    using update_source_first [of ?refreshed example_source_update
        example_font_set_options "[]"] fresh'
    by blast
  then have second: "exodus_source (snd (update example_source_update
      example_font_set_options [] ?refreshed))
      = example_source_update (exodus_source example_self)"
    by simp
  show ?thesis
    using stale fresh first second by blast
qed

section \<open>The renderer of the last filter\<close>

text \<open>
  C8. At the end of every call of \<open>update\<close> that returns, the required filters are not
  empty, their last element is a SelectVisiblePoints created in this call, and it has been
  given the adapter's renderer, whatever the label type and the object type of the
  variable.
\<close>

theorem update_sets_renderer:
  assumes "fst (update su fs kw self) = None"
  shows "required_filters (snd (update su fs kw self)) \<noteq> []
       \<and> stage_type (last (required_filters (snd (update su fs kw self)))) = SelectVisiblePoints
       \<and> stage_renderer (last (required_filters (snd (update su fs kw self))))
           = Some (vtkrenderer (snd (update su fs kw self)))
       \<and> vtkrenderer (snd (update su fs kw self)) = vtkrenderer self
       \<and> next_object self \<le> stage_vtk (last (required_filters (snd (update su fs kw self))))"
proof -
  define s1 where "s1 = snd (apply_options kw (update_source su self))"
  define s2 where "s2 = snd (select_filters s1)"
  define s3 where "s3 = snd (base_update s2)"
  define s4 where "s4 = snd (set_renderer s3)"
  note ok = update_ok [OF assms, folded s1_def s2_def s3_def s4_def]
  let ?s = "snd (update su fs kw self)"
  have s3_ne: "required_filters s3 \<noteq> []"
    using ok(4) by (rule set_renderer_ok(1))
  have filters: "required_filters ?s
      = butlast (required_filters s3)
        @ [(last (required_filters s3))\<lparr>stage_renderer := Some (vtkrenderer s3)\<rparr>]"
    using set_renderer_ok(2) [OF ok(4)] by (simp add: ok(5) update_fonts_filters s4_def)
  have renderer: "vtkrenderer s3 = vtkrenderer self"
    by (simp add: s3_def s2_def s1_def base_update_frame select_filters_frame
          apply_options_frame update_source_def)
  have "stage_type (last (required_filters s3)) = last (map stage_type (required_filters s3))"
    using s3_ne by (simp add: last_map)
  also have "\<dots> = last (map stage_type (required_filters s2))"
    by (simp add: s3_def base_update_frame)
  also have "\<dots> = SelectVisiblePoints"
    using select_filters_ok(2) [OF ok(2)] by (simp add: s2_def)
  finally have type: "stage_type (last (required_filters s3)) = SelectVisiblePoints" .
  have next1: "next_object s1 = next_object self"
    by (simp add: s1_def apply_options_frame update_source_def)
  have "stage_vtk (last (required_filters s3)) = last (map stage_vtk (required_filters s3))"
    using s3_ne by (simp add: last_map)
  also have "\<dots> = last (map stage_vtk (required_filters s2))"
    by (simp add: s3_def base_update_frame)
  finally have "stage_vtk (last (required_filters s3)) \<in> set (map stage_vtk (required_filters s2))"
    using select_filters_ok(1) [OF ok(2)] by (simp add: s2_def del: set_map)
  then have vtk: "next_object self \<le> stage_vtk (last (required_filters s3))"
    using select_filters_ok(3) [OF ok(2)] next1
    by (auto simp: s2_def list_all_iff)
  show ?thesis
    using type vtk by (simp add: filters renderer update_vtkrenderer)
qed

theorem update_sets_renderer_witness:
  "fst (update example_source_update example_font_set_options [] example_self) = None
   \<and> stage_type (last (required_filters (snd (update example_source_update
        example_font_set_options [] example_self)))) = SelectVisiblePoints
   \<and> stage_renderer (last (required_filters (snd (update example_source_update
        example_font_set_options [] example_self)))) = Some (vtkrenderer example_self)"
proof -
  have ok: "fst (update example_source_update example_font_set_options [] example_self) = None"
    by (simp add: update_eval example_defs)
  show ?thesis
    using ok update_sets_renderer [OF ok] by simp
qed

section \<open>The filters are rebuilt on every call\<close>

text \<open>
  C4. After every call of \<open>update\<close> that returns, the required filters are the ones the
  decision table gives for the label type and the variable metadata the adapter then
  holds; every one of them was created in this call, so none of the filters the adapter
  held before the call is in the list, and the mapper reads from the last of the new
  filters. The list again holds allocated filters only, so the same is true of the next
  call: two calls with different label types leave no filter of the first in the list.
\<close>

theorem update_rebuilds_filters:
  assumes "filters_allocated self" and "fst (update su fs kw self) = None"
  shows "(getOption (options (snd (update su fs kw self))) ''label_type'' = PyStr ''cell'' \<longrightarrow>
            map stage_type (required_filters (snd (update su fs kw self)))
              = [IdFilter, CellCenters, SelectVisiblePoints])
       \<and> (getOption (options (snd (update su fs kw self))) ''label_type'' = PyStr ''point'' \<longrightarrow>
            map stage_type (required_filters (snd (update su fs kw self)))
              = [IdFilter, SelectVisiblePoints])
       \<and> (getOption (options (snd (update su fs kw self))) ''label_type''
            \<notin> {PyStr ''cell'', PyStr ''point''} \<longrightarrow>
            (\<exists>varinfo. getCurrentVariableInformation (exodus_source (snd (update su fs kw self)))
                 = Some varinfo
               \<and> map stage_type (required_filters (snd (update su fs kw self)))
                   = (if object_type varinfo = ELEMENTAL
                      then [CellCenters, SelectVisiblePoints] else [SelectVisiblePoints])))
       \<and> list_all (\<lambda>f. next_object self \<le> stage_vtk f)
           (required_filters (snd (update su fs kw self)))
       \<and> set (map stage_vtk (required_filters (snd (update su fs kw self))))
           \<inter> set (map stage_vtk (required_filters self)) = {}
       \<and> distinct (map stage_vtk (required_filters (snd (update su fs kw self))))
       \<and> mapper_input (vtkmapper (snd (update su fs kw self)))
           = Some (stage_vtk (last (required_filters (snd (update su fs kw self)))))
       \<and> filters_allocated (snd (update su fs kw self))"
proof -
  define s1 where "s1 = snd (apply_options kw (update_source su self))"
  define s2 where "s2 = snd (select_filters s1)"
  define s3 where "s3 = snd (base_update s2)"
  define s4 where "s4 = snd (set_renderer s3)"
  note ok = update_ok [OF assms(2), folded s1_def s2_def s3_def s4_def]
  let ?s = "snd (update su fs kw self)"
  have sel: "snd (and_then (apply_options kw (update_source su self)) select_filters) = s2"
    using ok(1) by (simp add: and_then_None s1_def s2_def)
  have types: "map stage_type (required_filters ?s) = map stage_type (required_filters s2)"
    and vtks: "map stage_vtk (required_filters ?s) = map stage_vtk (required_filters s2)"
    and opts: "options ?s = options s1"
    and src: "exodus_source ?s = exodus_source s1"
    and nxt: "next_object ?s = next_object s2"
    by (simp_all add: update_selected sel s2_def select_filters_frame)
  have next1: "next_object s1 = next_object self"
    by (simp add: s1_def apply_options_frame update_source_def)
  have table:
    "(getOption (options ?s) ''label_type'' = PyStr ''cell'' \<longrightarrow>
        map stage_type (required_filters ?s) = [IdFilter, CellCenters, SelectVisiblePoints])
     \<and> (getOption (options ?s) ''label_type'' = PyStr ''point'' \<longrightarrow>
        map stage_type (required_filters ?s) = [IdFilter, SelectVisiblePoints])
     \<and> (getOption (options ?s) ''label_type'' \<notin> {PyStr ''cell'', PyStr ''point''} \<longrightarrow>
        (\<exists>varinfo. getCurrentVariableInformation (exodus_source ?s) = Some varinfo
           \<and> map stage_type (required_filters ?s)
               = (if object_type varinfo = ELEMENTAL
                  then [CellCenters, SelectVisiblePoints] else [SelectVisiblePoints])))"
    using selected_table [OF ok(2)] unfolding types opts src s2_def .
  have ids: "\<forall>i \<in> set (map stage_vtk (required_filters ?s)).
               next_object self \<le> i \<and> i < next_object ?s"
    using select_filters_ok(3) [OF ok(2)] unfolding vtks nxt next1 [symmetric] s2_def
    by (simp add: list_all_iff)
  have fresh: "list_all (\<lambda>f. next_object self \<le> stage_vtk f) (required_filters ?s)"
    using ids by (simp add: list_all_iff)
  have old: "\<forall>i \<in> set (map stage_vtk (required_filters self)). i < next_object self"
    using assms(1) by (simp add: filters_allocated_def list_all_iff)
  have disjoint: "set (map stage_vtk (required_filters ?s))
                    \<inter> set (map stage_vtk (required_filters self)) = {}"
    using ids old by fastforce
  have dist: "distinct (map stage_vtk (required_filters ?s))"
    using select_filters_ok(4) [OF ok(2)] unfolding vtks s2_def .
  have s2_ne: "required_filters s2 \<noteq> []"
    using select_filters_ok(1) [OF ok(2)] unfolding s2_def .
  then have s_ne: "required_filters ?s \<noteq> []"
    using vtks by (metis map_is_Nil_conv)
  have "mapper_input (vtkmapper ?s) = mapper_input (vtkmapper s3)"
    by (simp add: ok(5) update_fonts_mapper_input s4_def set_renderer_mapper)
  also have "\<dots> = Some (last (map stage_vtk (required_filters s2)))"
    unfolding s3_def using ok(3) s2_ne by (rule base_update_ok)
  also have "\<dots> = Some (stage_vtk (last (required_filters ?s)))"
    using s_ne by (simp add: vtks [symmetric] last_map)
  finally have input: "mapper_input (vtkmapper ?s)
                         = Some (stage_vtk (last (required_filters ?s)))" .
  have alloc: "filters_allocated ?s"
    using ids by (simp add: filters_allocated_def list_all_iff)
  show ?thesis
    using table fresh disjoint dist input alloc by blast
qed

theorem update_rebuilds_filters_witness:
  "filters_allocated example_after_cell
   \<and> map stage_type (required_filters example_after_cell)
       = [IdFilter, CellCenters, SelectVisiblePoints]
   \<and> fst (update example_source_update example_font_set_options
        [(''label_type'', PyStr ''point'')] example_after_cell) = None
   \<and> map stage_type (required_filters (snd (update example_source_update
        example_font_set_options [(''label_type'', PyStr ''point'')] example_after_cell)))
       = [IdFilter, SelectVisiblePoints]
   \<and> set (map stage_vtk (required_filters (snd (update example_source_update
        example_font_set_options [(''label_type'', PyStr ''point'')] example_after_cell))))
       \<inter> set (map stage_vtk (required_filters example_after_cell)) = {}"
proof -
  let ?su = example_source_update and ?fs = example_font_set_options
  have alloc0: "filters_allocated example_self"
    by (simp add: filters_allocated_def example_defs)
  have ok1: "fst (update ?su ?fs [(''label_type'', PyStr ''cell'')] example_self) = None"
    by (simp add: update_eval example_defs)
  have cell: "getOption (options (snd (update ?su ?fs [(''label_type'', PyStr ''cell'')]
                example_self))) ''label_type'' = PyStr ''cell''"
    by (simp add: update_eval example_defs)
  note first = update_rebuilds_filters [OF alloc0 ok1]
  have alloc1: "filters_allocated example_after_cell"
    using first by (simp add: example_after_cell_def)
  have types1: "map stage_type (required_filters example_after_cell)
                  = [IdFilter, CellCenters, SelectVisiblePoints]"
    using first cell by (simp add: example_after_cell_def)
  have ok2: "fst (update ?su ?fs [(''label_type'', PyStr ''point'')] example_after_cell) = None"
    by (simp add: example_after_cell_def update_eval example_defs)
  have point: "getOption (options (snd (update ?su ?fs [(''label_type'', PyStr ''point'')]
                 example_after_cell))) ''label_type'' = PyStr ''point''"
    by (simp add: example_after_cell_def update_eval example_defs)
  note second = update_rebuilds_filters [OF alloc1 ok2]
  show ?thesis
    using alloc1 types1 ok2 second point by simp
qed

section \<open>The constructor checks its argument\<close>

text \<open>
  C3. Constructing the adapter with an object that is not an \<^verbatim>\<open>ExodusSource\<close> raises
  the \<^verbatim>\<open>MooseException\<close> (the spec's InvalidArgument) whose message names the class of
  that object, and the result is the exception alone: no adapter, complete or partial, is
  returned. Constructing it with an \<^verbatim>\<open>ExodusSource\<close> returns an adapter that holds
  that mesh source and the attributes the base class set.
\<close>

theorem init_checks_type:
  "init base_init (OtherObject class_name) kw
     = Inl (MooseException (''The supplied object of type '' @ class_name
                             @ '' must be a ExodusSource object.''))
   \<and> (\<exists>self. init base_init (ExodusSourceObject src) kw = Inr self
         \<and> exodus_source self = src
         \<and> options self = options (base_init kw)
         \<and> required_filters self = required_filters (base_init kw)
         \<and> vtkmapper self = vtkmapper (base_init kw)
         \<and> vtkrenderer self = vtkrenderer (base_init kw))"
  by (simp add: init_def Let_def)

section \<open>getVTKSource\<close>

text \<open>With a mesh source whose filter list is empty, \<^verbatim>\<open>getFilters()[-1]\<close> raises
  IndexError: the call returns no filter.\<close>

theorem getVTKSource_empty_counterexample:
  "getVTKSource (example_self\<lparr>exodus_source := example_source\<lparr>getFilters := []\<rparr>\<rparr>)
     = Inl IndexError"
  by (simp add: getVTKSource_def py_last_def)

text \<open>
  C5, amended. Whenever the filter list of the mesh source is not empty, \<open>getVTKSource\<close>
  returns the VTK filter of the last filter of the mesh source's own chain. The call is a
  function of the adapter that returns a value only, so it changes neither the adapter nor
  the mesh source; and its result is the same for every adapter whose mesh source has the
  same filter list, whatever the adapter's options (its \<^verbatim>\<open>label_type\<close> among them)
  and its own required filters.
\<close>

theorem getVTKSource_last_filter:
  assumes "getFilters (exodus_source self) \<noteq> []"
  shows "getVTKSource self = Inr (getVTKFilter (last (getFilters (exodus_source self))))
       \<and> (\<forall>other. getFilters (exodus_source other) = getFilters (exodus_source self)
              \<longrightarrow> getVTKSource other = getVTKSource self)"
  using assms by (simp add: getVTKSource_def py_last_def)

theorem getVTKSource_last_filter_witness:
  "getFilters (exodus_source example_self) \<noteq> []
   \<and> getVTKSource example_self = Inr 0
   \<and> options example_after_cell \<noteq> options example_self
   \<and> required_filters example_after_cell \<noteq> required_filters example_self
   \<and> getVTKSource example_after_cell = getVTKSource example_self"
proof -
  have ne: "getFilters (exodus_source example_self) \<noteq> []"
    by (simp add: example_defs)
  have same: "getFilters (exodus_source example_after_cell)
                = getFilters (exodus_source example_self)"
    by (simp add: example_after_cell_def update_exodus_source update_source_def example_defs)
  have opts: "getOption (options example_after_cell) ''label_type''
                \<noteq> getOption (options example_self) ''label_type''"
    by (simp add: example_after_cell_def update_eval example_defs)
  then have opts': "options example_after_cell \<noteq> options example_self"
    by auto
  have "map stage_type (required_filters example_after_cell)
          \<noteq> map stage_type (required_filters example_self)"
    by (simp add: example_after_cell_def update_eval example_defs)
  then have filters: "required_filters example_after_cell \<noteq> required_filters example_self"
    by auto
  have last: "getVTKFilter (last (getFilters (exodus_source example_self))) = 0"
    by (simp add: example_defs)
  show ?thesis
    using getVTKSource_last_filter [OF ne] ne same opts' filters last by simp
qed

text \<open>
  C10. \<open>getVTKSource\<close> reads the last element of the mesh source's filter list with no
  test for emptiness: when the list is not empty the call returns the VTK filter of its
  last element and the error branch of the indexing is not taken; when the list is empty
  the call raises IndexError; and the call raises only then.
\<close>

theorem getVTKSource_unguarded:
  "(getFilters (exodus_source self) \<noteq> [] \<longrightarrow>
      getVTKSource self = Inr (getVTKFilter (last (getFilters (exodus_source self)))))
   \<and> (getFilters (exodus_source self) = [] \<longrightarrow> getVTKSource self = Inl IndexError)
   \<and> ((\<exists>e. getVTKSource self = Inl e) \<longleftrightarrow> getFilters (exodus_source self) = [])"
  by (simp add: getVTKSource_def py_last_def)

theorem getVTKSource_unguarded_witness:
  "getFilters (exodus_source example_after_cell) \<noteq> []
   \<and> getVTKSource example_after_cell = Inr 0
   \<and> getFilters (exodus_source (example_after_cell\<lparr>exodus_source :=
         (exodus_source example_after_cell)\<lparr>getFilters := []\<rparr>\<rparr>)) = []
   \<and> getVTKSource (example_after_cell\<lparr>exodus_source :=
         (exodus_source example_after_cell)\<lparr>getFilters := []\<rparr>\<rparr>) = Inl IndexError"
proof -
  have src: "exodus_source example_after_cell = example_source_update example_source"
    by (simp add: example_after_cell_def update_exodus_source update_source_def example_defs)
  have ne: "getFilters (exodus_source example_after_cell) \<noteq> []"
    and last: "getVTKFilter (last (getFilters (exodus_source example_after_cell))) = 0"
    by (simp_all add: src example_defs)
  have empty: "getFilters (exodus_source (example_after_cell\<lparr>exodus_source :=
         (exodus_source example_after_cell)\<lparr>getFilters := []\<rparr>\<rparr>)) = []"
    by simp
  show ?thesis
    using getVTKSource_unguarded [of example_after_cell]
      getVTKSource_unguarded [of "example_after_cell\<lparr>exodus_source :=
         (exodus_source example_after_cell)\<lparr>getFilters := []\<rparr>\<rparr>"]
      ne last empty
    by simp
qed

section \<open>The options of the adapter\<close>

text \<open>
  C9. Where the inherited options (those of the base 2D source, then the font options)
  hold \<^verbatim>\<open>justification\<close> and \<^verbatim>\<open>vertical_justification\<close>, \<open>getOptions\<close> returns
  an option set in which: \<^verbatim>\<open>label_type\<close> has the default \<^verbatim>\<open>'variable'\<close> and accepts
  exactly the values \<^verbatim>\<open>'point'\<close>, \<^verbatim>\<open>'cell'\<close> and \<^verbatim>\<open>'variable'\<close>;
  \<^verbatim>\<open>justification\<close> is the inherited entry with the default \<^verbatim>\<open>'center'\<close>, and
  \<^verbatim>\<open>vertical_justification\<close> the inherited entry with the default \<^verbatim>\<open>'middle'\<close>;
  every other option is the inherited one, unchanged.
\<close>

theorem getOptions_label_type:
  assumes "(base_options ++ font_options) ''justification'' = Some j"
      and "(base_options ++ font_options) ''vertical_justification'' = Some vj"
  shows "\<exists>opt. getOptions base_options font_options = Inr opt
       \<and> opt ''label_type''
           = Some \<lparr>opt_default = PyStr ''variable'', opt_value = PyStr ''variable'',
                   opt_doc = ''Specify the type of label to create.'', opt_vtype = Some TStr,
                   opt_allow = [PyStr ''point'', PyStr ''cell'', PyStr ''variable'']\<rparr>
       \<and> (\<forall>e v. opt ''label_type'' = Some e \<longrightarrow>
             valid_value e v = (v \<in> {PyStr ''point'', PyStr ''cell'', PyStr ''variable''}))
       \<and> getOption opt ''label_type'' = PyStr ''variable''
       \<and> opt ''justification''
           = Some (j\<lparr>opt_default := PyStr ''center'', opt_value := PyStr ''center''\<rparr>)
       \<and> opt ''vertical_justification''
           = Some (vj\<lparr>opt_default := PyStr ''middle'', opt_value := PyStr ''middle''\<rparr>)
       \<and> (\<forall>name. name \<notin> {''label_type'', ''justification'', ''vertical_justification''}
             \<longrightarrow> opt name = (base_options ++ font_options) name)"
proof -
  define entry where "entry =
    \<lparr>opt_default = PyStr ''variable'', opt_value = PyStr ''variable'',
     opt_doc = ''Specify the type of label to create.'', opt_vtype = Some TStr,
     opt_allow = [PyStr ''point'', PyStr ''cell'', PyStr ''variable'']\<rparr>"
  define opt where "opt =
    (base_options ++ font_options)
      (''label_type'' \<mapsto> entry,
       ''justification'' \<mapsto> j\<lparr>opt_default := PyStr ''center'', opt_value := PyStr ''center''\<rparr>,
       ''vertical_justification'' \<mapsto>
          vj\<lparr>opt_default := PyStr ''middle'', opt_value := PyStr ''middle''\<rparr>)"
  have result: "getOptions base_options font_options = Inr opt"
    using assms
    by (simp add: getOptions_def iadd_def add_def setDefault_def Let_def opt_def entry_def)
  have lt: "opt ''label_type'' = Some entry"
    by (simp add: opt_def)
  have valid: "\<forall>e v. opt ''label_type'' = Some e \<longrightarrow>
             valid_value e v = (v \<in> {PyStr ''point'', PyStr ''cell'', PyStr ''variable''})"
    unfolding lt by (simp add: entry_def label_type_valid)
  have dflt: "getOption opt ''label_type'' = PyStr ''variable''"
    by (simp add: getOption_def lt) (simp add: entry_def)
  have just: "opt ''justification''
           = Some (j\<lparr>opt_default := PyStr ''center'', opt_value := PyStr ''center''\<rparr>)"
    by (simp add: opt_def)
  have vert: "opt ''vertical_justification''
           = Some (vj\<lparr>opt_default := PyStr ''middle'', opt_value := PyStr ''middle''\<rparr>)"
    by (simp add: opt_def)
  have rest: "\<forall>name. name \<notin> {''label_type'', ''justification'', ''vertical_justification''}
             \<longrightarrow> opt name = (base_options ++ font_options) name"
    by (simp add: opt_def)
  show ?thesis
    using result lt valid dflt just vert rest unfolding entry_def by blast
qed

theorem getOptions_label_type_witness:
  "(example_base_options ++ example_font_options) ''justification''
     = Some \<lparr>opt_default = PyStr ''left'', opt_value = PyStr ''left'', opt_doc = ''horizontal'',
         opt_vtype = Some TStr,
         opt_allow = [PyStr ''left'', PyStr ''center'', PyStr ''right'']\<rparr>
   \<and> (\<exists>opt. getOptions example_base_options example_font_options = Inr opt
        \<and> map_option opt_default (opt ''label_type'') = Some (PyStr ''variable'')
        \<and> map_option opt_allow (opt ''label_type'')
            = Some [PyStr ''point'', PyStr ''cell'', PyStr ''variable'']
        \<and> map_option opt_default (opt ''justification'') = Some (PyStr ''center'')
        \<and> map_option opt_default (opt ''vertical_justification'') = Some (PyStr ''middle'')
        \<and> opt ''opacity'' = example_base_options ''opacity'')"
proof -
  define j where "j = \<lparr>opt_default = PyStr ''left'', opt_value = PyStr ''left'',
         opt_doc = ''horizontal'', opt_vtype = Some TStr,
         opt_allow = [PyStr ''left'', PyStr ''center'', PyStr ''right'']\<rparr>"
  define vj where "vj = \<lparr>opt_default = PyStr ''bottom'', opt_value = PyStr ''bottom'',
         opt_doc = ''vertical'', opt_vtype = Some TStr,
         opt_allow = [PyStr ''bottom'', PyStr ''middle'', PyStr ''top'']\<rparr>"
  have j: "(example_base_options ++ example_font_options) ''justification'' = Some j"
    by (simp add: example_base_options_def example_font_options_def j_def)
  have vj: "(example_base_options ++ example_font_options) ''vertical_justification'' = Some vj"
    by (simp add: example_base_options_def example_font_options_def vj_def)
  have opacity: "(example_base_options ++ example_font_options) ''opacity''
                   = example_base_options ''opacity''"
    by (simp add: example_base_options_def example_font_options_def)
  from getOptions_label_type [OF j vj] obtain opt where
    opt: "getOptions example_base_options example_font_options = Inr opt"
    and lt: "opt ''label_type''
           = Some \<lparr>opt_default = PyStr ''variable'', opt_value = PyStr ''variable'',
                   opt_doc = ''Specify the type of label to create.'', opt_vtype = Some TStr,
                   opt_allow = [PyStr ''point'', PyStr ''cell'', PyStr ''variable'']\<rparr>"
    and just: "opt ''justification''
           = Some (j\<lparr>opt_default := PyStr ''center'', opt_value := PyStr ''center''\<rparr>)"
    and vert: "opt ''vertical_justification''
           = Some (vj\<lparr>opt_default := PyStr ''middle'', opt_value := PyStr ''middle''\<rparr>)"
    and rest: "\<forall>name. name \<notin> {''label_type'', ''justification'', ''vertical_justification''}
             \<longrightarrow> opt name = (example_base_options ++ example_font_options) name"
    by (elim exE conjE) (rule that)
  from rest have "opt ''opacity'' = (example_base_options ++ example_font_options) ''opacity''"
    by simp
  with opacity have other: "opt ''opacity'' = example_base_options ''opacity''"
    by simp
  have "map_option opt_default (opt ''label_type'') = Some (PyStr ''variable'')"
    and "map_option opt_allow (opt ''label_type'')
            = Some [PyStr ''point'', PyStr ''cell'', PyStr ''variable'']"
    and "map_option opt_default (opt ''justification'') = Some (PyStr ''center'')"
    and "map_option opt_default (opt ''vertical_justification'') = Some (PyStr ''middle'')"
    by (simp_all add: lt just vert)
  with j [unfolded j_def] opt other show ?thesis
    by (intro conjI exI [of _ opt])
qed

section \<open>A call of update does not depend on the calls before it\<close>



end
